theory Spec2Isabelle
  imports Main
begin

section \<open>Collective variables for OpenMM: the data model\<close>

text \<open>
  The repository layers a few Python classes over the OpenMM engine. The engine
  itself (forces, systems, contexts, states, units, the XML serializer) is not part of
  the repository; its operations appear below either as plain updates of the engine
  object they act on or, where their result is computed by the engine, as parameters.
\<close>

subsection \<open>Units, exceptions, engine objects\<close>

text \<open>The unit tags the source mentions (\<^verbatim>\<open>openmm.unit\<close>), and any other unit by name.\<close>

datatype mm_unit = dimensionless | nanometers | radians | kilojoules_per_mole
  | named_unit string

text \<open>
  What a call can raise: the built-in exceptions of the Python runtime that the source
  lines can trigger, and the exception class of the engine.
\<close>

datatype py_exc = StopIteration | TypeError | OpenMMException string

fun is_engine_exc :: "py_exc \<Rightarrow> bool" where
  "is_engine_exc (OpenMMException m) = True"
| "is_engine_exc StopIteration = False"
| "is_engine_exc TypeError = False"

fun raised_by_engine :: "py_exc + 'a \<Rightarrow> bool" where
  "raised_by_engine (Inl e) = is_engine_exc e"
| "raised_by_engine (Inr v) = False"

text \<open>
  Engine objects live in a store and are referred to by address: a Python variable that
  holds a force, and the list of forces of a system, share the object. Of a force the
  repository reads and writes the force group; whatever else the engine keeps in it is
  the extension of the record.
\<close>

type_synonym addr = nat

record force =
  forceGroup :: int

type_synonym 'a store = "addr \<Rightarrow> 'a force_scheme"

definition getForceGroup :: "'a store \<Rightarrow> addr \<Rightarrow> int" where
  "getForceGroup s a = forceGroup (s a)"

definition setForceGroup :: "addr \<Rightarrow> int \<Rightarrow> 'a store \<Rightarrow> 'a store" where
  "setForceGroup a g s = s(a := (s a)\<lparr>forceGroup := g\<rparr>)"

record system =
  getForces :: "addr list"

record 'p mm_context =
  getSystem :: system
  platformData :: 'p

text \<open>
  The engine operations whose results the repository only passes on:
  \<^verbatim>\<open>Context.getState(getEnergy=True, groups=...)\<close>, which may raise,
  \<^verbatim>\<open>State.getPotentialEnergy()\<close>, \<^verbatim>\<open>Quantity.value_in_unit_system(md_unit_system)\<close>
  and the product of a number with a unit.
\<close>

record ('a, 'p, 's, 'q, 'x, 'v) engine =
  getState :: "'a store \<Rightarrow> 'p mm_context \<Rightarrow> bool \<Rightarrow> int set \<Rightarrow> py_exc + 's"
  getPotentialEnergy :: "'s \<Rightarrow> 'q"
  value_in_unit_system_md :: "'q \<Rightarrow> 'x"
  times_unit :: "'x \<Rightarrow> mm_unit \<Rightarrow> 'v"

subsection \<open>\<^verbatim>\<open>cvlib.AbstractCollectiveVariable\<close>\<close>

text \<open>
  A collective variable is a Python object over an engine force (\<open>this\<close>). The class
  attribute \<^verbatim>\<open>_unit = unit.dimensionless\<close> is what \<^verbatim>\<open>self._unit\<close> reads until
  \<^verbatim>\<open>setUnit\<close> has stored an attribute of the instance.
\<close>

record collective_variable =
  this :: addr
  unit_attr :: "mm_unit option"

definition class_unit :: mm_unit where
  "class_unit = dimensionless"

definition setUnit :: "collective_variable \<Rightarrow> mm_unit \<Rightarrow> collective_variable" where
  "setUnit self cv_unit = self\<lparr>unit_attr := Some cv_unit\<rparr>"

definition getUnit :: "collective_variable \<Rightarrow> mm_unit" where
  "getUnit self = (case unit_attr self of None \<Rightarrow> class_unit | Some u \<Rightarrow> u)"

definition in_md_units :: "('a, 'p, 's, 'q, 'x, 'v) engine \<Rightarrow> 'q \<Rightarrow> 'x" where
  "in_md_units eng quantity = value_in_unit_system_md eng quantity"

text \<open>
  \<^verbatim>\<open>next(iter(s))\<close>: the first element in the iteration order of the set, and
  \<^verbatim>\<open>StopIteration\<close> when there is none. The order in which CPython iterates a set
  of integers is a matter of its hash table (for \<^verbatim>\<open>{1, 8}\<close> it starts with 8), so
  the order is a parameter \<open>it\<close>, of which \<open>set_iteration\<close> says all that the
  language promises: it lists the elements of the set, each once.
\<close>

definition set_iteration :: "(int set \<Rightarrow> int list) \<Rightarrow> bool" where
  "set_iteration it \<longleftrightarrow> (\<forall>S. finite S \<longrightarrow> set (it S) = S \<and> distinct (it S))"

definition py_next :: "'b list \<Rightarrow> py_exc + 'b" where
  "py_next xs = (case xs of [] \<Rightarrow> Inl StopIteration | x # _ \<Rightarrow> Inr x)"

definition free_groups :: "'a store \<Rightarrow> addr list \<Rightarrow> int set" where
  "free_groups s forces = set (map int [0..<32]) - set (map (getForceGroup s) forces)"

definition new_group :: "(int set \<Rightarrow> int list) \<Rightarrow> 'a store \<Rightarrow> 'p mm_context \<Rightarrow> py_exc + int" where
  "new_group it s context = py_next (it (free_groups s (getForces (getSystem context))))"

text \<open>
  \<^verbatim>\<open>evaluateInContext\<close> returns the value or the exception, and the store as
  the call leaves it. An exception ends the call where it is raised: the statements
  after it do not run.
\<close>

definition evaluateInContext ::
  "('a, 'p, 's, 'q, 'x, 'v) engine \<Rightarrow> (int set \<Rightarrow> int list) \<Rightarrow> collective_variable \<Rightarrow>
   'p mm_context \<Rightarrow> 'a store \<Rightarrow> (py_exc + 'v) \<times> 'a store" where
  "evaluateInContext eng it self context s =
     (let old_group = getForceGroup s (this self) in
      case new_group it s context of
        Inl e \<Rightarrow> (Inl e, s)
      | Inr g \<Rightarrow>
          (let s1 = setForceGroup (this self) g s in
           case getState eng s1 context True {g} of
             Inl e \<Rightarrow> (Inl e, s1)
           | Inr state \<Rightarrow>
               (let s2 = setForceGroup (this self) old_group s1 in
                (Inr (times_unit eng (in_md_units eng (getPotentialEnergy eng state))
                        (getUnit self)), s2))))"

subsection \<open>\<^verbatim>\<open>cvlib.RadiusOfGyration\<close>\<close>

text \<open>
  The engine's \<^verbatim>\<open>CustomCentroidBondForce\<close>: the number of groups of a bond, the energy
  expression, the groups (atom indices and weights) and the bonds (group indices and
  parameters) added so far, and the periodicity flag. A new force is in group 0, has no
  groups and no bonds and does not use periodic boundary conditions; \<^verbatim>\<open>addGroup\<close> and
  \<^verbatim>\<open>addBond\<close> append.
\<close>

record custom_centroid_bond_force = force +
  numGroupsPerBond :: int
  energyFunction :: string
  groups :: "(int list \<times> int list) list"
  bonds :: "(int list \<times> int list) list"
  usesPeriodicBoundaryConditions :: bool

type_synonym centroid_store = "addr \<Rightarrow> custom_centroid_bond_force"

definition CustomCentroidBondForce_init :: "int \<Rightarrow> string \<Rightarrow> custom_centroid_bond_force" where
  "CustomCentroidBondForce_init numGroups energy =
     \<lparr>forceGroup = 0, numGroupsPerBond = numGroups, energyFunction = energy,
      groups = [], bonds = [], usesPeriodicBoundaryConditions = False\<rparr>"

definition addGroup :: "addr \<Rightarrow> int list \<Rightarrow> int list \<Rightarrow> centroid_store \<Rightarrow> centroid_store" where
  "addGroup a particles weights s =
     s(a := (s a)\<lparr>groups := groups (s a) @ [(particles, weights)]\<rparr>)"

definition addBond :: "addr \<Rightarrow> int list \<Rightarrow> int list \<Rightarrow> centroid_store \<Rightarrow> centroid_store" where
  "addBond a gs parameters s = s(a := (s a)\<lparr>bonds := bonds (s a) @ [(gs, parameters)]\<rparr>)"

definition setUsesPeriodicBoundaryConditions ::
  "addr \<Rightarrow> bool \<Rightarrow> centroid_store \<Rightarrow> centroid_store" where
  "setUsesPeriodicBoundaryConditions a periodic s =
     s(a := (s a)\<lparr>usesPeriodicBoundaryConditions := periodic\<rparr>)"

text \<open>Python's \<^verbatim>\<open>str\<close> of an integer, \<^verbatim>\<open>sep.join\<close> and \<^verbatim>\<open>range\<close>.\<close>

definition digit :: "nat \<Rightarrow> char" where
  "digit d = ''0123456789'' ! d"

function str_nat :: "nat \<Rightarrow> string" where
  "str_nat n = (if n < 10 then [digit n] else str_nat (n div 10) @ [digit (n mod 10)])"
  by pat_completeness auto
termination
  by (relation "measure (\<lambda>n. n)") auto

definition py_str :: "int \<Rightarrow> string" where
  "py_str i = (if i < 0 then CHR ''-'' # str_nat (nat (- i)) else str_nat (nat i))"

fun join :: "string \<Rightarrow> string list \<Rightarrow> string" where
  "join sep [] = []"
| "join sep [x] = x"
| "join sep (x # y # ys) = x @ sep @ join sep (y # ys)"

definition py_range :: "int \<Rightarrow> int list" where
  "py_range n = map int [0..<nat n]"

text \<open>
  The constructor, called on the new object whose engine force is at address \<open>a\<close>:
  \<^verbatim>\<open>super().__init__\<close> is that of \<^verbatim>\<open>CustomCentroidBondForce\<close>, the first base class.
  It returns the Python object and the store.
\<close>

definition RadiusOfGyration_init ::
  "int list \<Rightarrow> addr \<Rightarrow> centroid_store \<Rightarrow> collective_variable \<times> centroid_store" where
  "RadiusOfGyration_init atoms a s =
     (let num_atoms = int (length atoms);
          num_groups = num_atoms + 1;
          rgsq = join ''+''
            (map (\<lambda>i. ''distance(g'' @ py_str (i + 1) @ '', g'' @ py_str num_groups @ '')^2'')
               (py_range num_atoms));
          s1 = s(a := CustomCentroidBondForce_init num_groups
                 (''sqrt(('' @ rgsq @ '')/'' @ py_str num_atoms @ '')''));
          s2 = fold (\<lambda>atom. addGroup a [atom] [1]) atoms s1;
          s3 = addGroup a atoms (replicate (length atoms) 1) s2;
          s4 = addBond a (py_range num_groups) [] s3;
          s5 = setUsesPeriodicBoundaryConditions a False s4;
          self = setUnit \<lparr>this = a, unit_attr = None\<rparr> nanometers
      in (self, s5))"

text \<open>
  The expression the class documents, as a term: the square root of the mean of the squared
  distances between the groups \<open>g1, ..., gn\<close> and the group \<open>g(n+1)\<close>. \<open>render\<close> writes
  a term in the syntax of the engine's expressions.
\<close>

datatype expression = Distance int int | Power expression int | Mean "expression list"
  | Sqrt expression

fun render :: "expression \<Rightarrow> string" where
  "render (Distance i j) = ''distance(g'' @ py_str i @ '', g'' @ py_str j @ '')''"
| "render (Power e k) = render e @ ''^'' @ py_str k"
| "render (Mean es) = ''('' @ join ''+'' (map render es) @ '')/'' @ py_str (int (length es))"
| "render (Sqrt e) = ''sqrt('' @ render e @ '')''"

definition radius_of_gyration_expression :: "nat \<Rightarrow> expression" where
  "radius_of_gyration_expression n =
     Sqrt (Mean (map (\<lambda>i. Power (Distance (int i + 1) (int n + 1)) 2) [0..<n]))"

subsection \<open>\<^verbatim>\<open>cvpack.OpenMMForceWrapper\<close>: Python objects and classes\<close>

text \<open>
  The constructor works on Python objects as such: it merges one instance dictionary
  into another and assigns the \<^verbatim>\<open>__bases__\<close> of a class. A Python object has a class and
  an instance dictionary; the proxy of an engine force keeps under \<^verbatim>\<open>this\<close> the reference
  to the engine's own object, and these live in a store of their own (\<open>natives\<close>). The
  state holds the objects, the engine objects, the base classes of every class, and the
  next address of each store that is not in use.
\<close>

type_synonym cname = string

datatype 'q pyval = Native addr | UnitV mm_unit | ScalarV 'q | StrV string | NoneV
  | TupleV "'q pyval list"

record 'q pyobj =
  ob_class :: cname
  ob_dict :: "string \<rightharpoonup> 'q pyval"

record ('n, 'q) py_state =
  objects :: "addr \<Rightarrow> 'q pyobj"
  natives :: "addr \<Rightarrow> 'n"
  class_bases :: "cname \<Rightarrow> cname list"
  next_object :: addr
  next_native :: addr

text \<open>
  What the engine and the interpreter decide: the XML text of an engine object, the class
  and the engine object read back from a text (either may raise), and whether the
  interpreter accepts a tuple of base classes for a class (the layout of the instances, a
  consistent method resolution order, no inheritance cycle).
\<close>

record 'n runtime =
  xml_serialize :: "'n \<Rightarrow> py_exc + string"
  xml_deserialize :: "string \<Rightarrow> py_exc + cname \<times> 'n"
  bases_accepted :: "(cname \<Rightarrow> cname list) \<Rightarrow> cname \<Rightarrow> cname list \<Rightarrow> bool"

text \<open>The argument \<^verbatim>\<open>openmmForce: Union[openmm.Force, str]\<close>.\<close>

datatype force_arg = ForceObject addr | XmlText string

text \<open>
  \<^verbatim>\<open>isinstance(obj, cls)\<close>: the class of the object is \<open>cls\<close> or reaches it through base
  classes.
\<close>

inductive subclass_of :: "(cname \<Rightarrow> cname list) \<Rightarrow> cname \<Rightarrow> cname \<Rightarrow> bool"
  for B :: "cname \<Rightarrow> cname list" where
  same: "subclass_of B c c"
| base: "b \<in> set (B c) \<Longrightarrow> subclass_of B b d \<Longrightarrow> subclass_of B c d"

definition isinstance :: "('n, 'q) py_state \<Rightarrow> addr \<Rightarrow> cname \<Rightarrow> bool" where
  "isinstance st a k = subclass_of (class_bases st) (ob_class (objects st a)) k"

text \<open>
  \<^verbatim>\<open>XmlSerializer.serialize\<close> reads the engine object behind the proxy.
  \<^verbatim>\<open>XmlSerializer.deserialize\<close> creates a new engine object and returns a new proxy
  for it, of the class the engine names.
\<close>

definition XmlSerializer_serialize ::
  "'n runtime \<Rightarrow> ('n, 'q) py_state \<Rightarrow> addr \<Rightarrow> py_exc + string" where
  "XmlSerializer_serialize rt st f =
     (case ob_dict (objects st f) ''this'' of
        Some (Native n) \<Rightarrow> xml_serialize rt (natives st n)
      | _ \<Rightarrow> Inl TypeError)"

definition XmlSerializer_deserialize ::
  "'n runtime \<Rightarrow> string \<Rightarrow> ('n, 'q) py_state \<Rightarrow> py_exc + 'q pyobj \<times> ('n, 'q) py_state" where
  "XmlSerializer_deserialize rt text st =
     (case xml_deserialize rt text of
        Inl e \<Rightarrow> Inl e
      | Inr (c, n) \<Rightarrow>
          Inr (\<lparr>ob_class = c, ob_dict = [''this'' \<mapsto> Native (next_native st)]\<rparr>,
               st\<lparr>natives := (natives st)(next_native st := n),
                  next_native := Suc (next_native st)\<rparr>))"

text \<open>
  \<^verbatim>\<open>obj.__dict__.update(d)\<close>, the assignment of an attribute, and the assignment of
  \<^verbatim>\<open>cls.__bases__\<close>, which raises \<^verbatim>\<open>TypeError\<close> when a class occurs twice in the tuple
  (\<^verbatim>\<open>duplicate base class\<close>) or the interpreter does not accept the tuple.
\<close>

definition dict_update :: "addr \<Rightarrow> (string \<rightharpoonup> 'q pyval) \<Rightarrow> ('n, 'q) py_state \<Rightarrow> ('n, 'q) py_state" where
  "dict_update self d st =
     st\<lparr>objects := (objects st)(self := (objects st self)\<lparr>ob_dict := ob_dict (objects st self) ++ d\<rparr>)\<rparr>"

definition setattr :: "addr \<Rightarrow> string \<Rightarrow> 'q pyval \<Rightarrow> ('n, 'q) py_state \<Rightarrow> ('n, 'q) py_state" where
  "setattr self name v st = dict_update self [name \<mapsto> v] st"

definition set_bases ::
  "'n runtime \<Rightarrow> cname \<Rightarrow> cname list \<Rightarrow> ('n, 'q) py_state \<Rightarrow> py_exc + ('n, 'q) py_state" where
  "set_bases rt c new st =
     (if distinct new \<and> bases_accepted rt (class_bases st) c new
      then Inr (st\<lparr>class_bases := (class_bases st)(c := new)\<rparr>)
      else Inl TypeError)"

text \<open>
  Modelled from the spec: \<^verbatim>\<open>cvpack.unit.SerializableUnit\<close> and the methods
  \<^verbatim>\<open>_registerCV\<close> and \<^verbatim>\<open>_registerPeriod\<close> of \<^verbatim>\<open>cvpack.cvpack.BaseCollectiveVariable\<close>
  are not among the sources. The specification says of them that the repository attaches
  to a collective variable a unit-of-measurement tag and an optional periodicity value
  and registers this metadata: \<open>SerializableUnit\<close> is the unit tag it is given,
  \<open>registerCV\<close> stores the unit and the arguments of the constructor as attributes of
  the object, and \<open>registerPeriod\<close> stores the period.
\<close>

definition SerializableUnit :: "mm_unit \<Rightarrow> mm_unit" where
  "SerializableUnit u = u"

definition registerCV ::
  "addr \<Rightarrow> mm_unit \<Rightarrow> 'q pyval list \<Rightarrow> ('n, 'q) py_state \<Rightarrow> ('n, 'q) py_state" where
  "registerCV self cv_unit args st =
     setattr self ''_args'' (TupleV args) (setattr self ''_unit'' (UnitV cv_unit) st)"

definition registerPeriod :: "addr \<Rightarrow> 'q \<Rightarrow> ('n, 'q) py_state \<Rightarrow> ('n, 'q) py_state" where
  "registerPeriod self period st = setattr self ''_period'' (ScalarV period) st"

text \<open>The value of the optional argument \<^verbatim>\<open>period\<close>, as passed on to \<^verbatim>\<open>_registerCV\<close>.\<close>

definition optional :: "'q option \<Rightarrow> 'q pyval" where
  "optional p = (case p of None \<Rightarrow> NoneV | Some q \<Rightarrow> ScalarV q)"

text \<open>
  Lines 84 and 85 of the constructor: the XML text is the serialization of the force, or
  the string that was passed instead.
\<close>

definition xml_text :: "'n runtime \<Rightarrow> ('n, 'q) py_state \<Rightarrow> force_arg \<Rightarrow> py_exc + string" where
  "xml_text rt st openmmForce =
     (case openmmForce of ForceObject f \<Rightarrow> XmlSerializer_serialize rt st f | XmlText t \<Rightarrow> Inr t)"

text \<open>
  \<^verbatim>\<open>OpenMMForceWrapper.__init__\<close> on the object at \<open>self\<close>. It returns the exception,
  if one is raised, and the state as the call leaves it.
\<close>

definition OpenMMForceWrapper_init ::
  "'n runtime \<Rightarrow> addr \<Rightarrow> force_arg \<Rightarrow> mm_unit \<Rightarrow> 'q option \<Rightarrow> ('n, 'q) py_state \<Rightarrow>
   py_exc option \<times> ('n, 'q) py_state" where
  "OpenMMForceWrapper_init rt self openmmForce unit0 period st =
     (case xml_text rt st openmmForce of
        Inl e \<Rightarrow> (Some e, st)
      | Inr text \<Rightarrow>
          (let unit1 = SerializableUnit unit0 in
           case XmlSerializer_deserialize rt text st of
             Inl e \<Rightarrow> (Some e, st)
           | Inr (force_copy, st1) \<Rightarrow>
               (let st2 = dict_update self (ob_dict force_copy) st1;
                    cls = ob_class (objects st2 self) in
                case set_bases rt cls (class_bases st2 cls @ [ob_class force_copy]) st2 of
                  Inl e \<Rightarrow> (Some e, st2)
                | Inr st3 \<Rightarrow>
                    (let st4 = registerCV self unit1 [StrV text, UnitV unit1, optional period] st3
                     in case period of
                          None \<Rightarrow> (None, st4)
                        | Some p \<Rightarrow> (None, registerPeriod self p st4)))))"

text \<open>
  The call \<^verbatim>\<open>OpenMMForceWrapper(openmmForce, unit, period)\<close>: a new object of the class,
  with an empty dictionary, on which \<^verbatim>\<open>__init__\<close> runs.
\<close>

definition new_object :: "cname \<Rightarrow> ('n, 'q) py_state \<Rightarrow> ('n, 'q) py_state" where
  "new_object cls st =
     st\<lparr>objects := (objects st)(next_object st := \<lparr>ob_class = cls, ob_dict = Map.empty\<rparr>),
        next_object := Suc (next_object st)\<rparr>"

definition OpenMMForceWrapper_new ::
  "'n runtime \<Rightarrow> force_arg \<Rightarrow> mm_unit \<Rightarrow> 'q option \<Rightarrow> ('n, 'q) py_state \<Rightarrow>
   (py_exc + addr) \<times> ('n, 'q) py_state" where
  "OpenMMForceWrapper_new rt openmmForce unit0 period st =
     (let self = next_object st in
      case OpenMMForceWrapper_init rt self openmmForce unit0 period
             (new_object ''OpenMMForceWrapper'' st) of
        (Some e, st') \<Rightarrow> (Inl e, st')
      | (None, st') \<Rightarrow> (Inr self, st'))"


definition registered_period :: "('n, 'q) py_state \<Rightarrow> addr \<Rightarrow> 'q option" where
  "registered_period st a =
     (case ob_dict (objects st a) ''_period'' of Some (ScalarV q) \<Rightarrow> Some q | _ \<Rightarrow> None)"

definition built :: "addr \<Rightarrow> string \<Rightarrow> cname \<Rightarrow> 'n \<Rightarrow> mm_unit \<Rightarrow> 'q option \<Rightarrow>
    ('n, 'q) py_state \<Rightarrow> ('n, 'q) py_state" where
  "built self text c n u p st =
     (let cls = ob_class (objects st self);
          d = (ob_dict (objects st self))(''this'' \<mapsto> Native (next_native st),
                ''_unit'' \<mapsto> UnitV u, ''_args'' \<mapsto> TupleV [StrV text, UnitV u, optional p]) in
      st\<lparr>objects := (objects st)(self := (objects st self)
             \<lparr>ob_dict := (case p of None \<Rightarrow> d | Some q \<Rightarrow> d(''_period'' \<mapsto> ScalarV q))\<rparr>),
         natives := (natives st)(next_native st := n),
         class_bases := (class_bases st)(cls := class_bases st cls @ [c]),
         next_native := Suc (next_native st)\<rparr>)"

subsection \<open>Inputs for the examples\<close>

text \<open>
  A store in which the force at address \<open>a\<close> is in group \<open>a\<close>, a system of three
  forces, a system of thirty-two forces that occupies every group, an engine whose energy
  of a set of groups is the sum of \<open>1 + a\<close> over the system's forces \<open>a\<close> in these
  groups, and a collective variable over the force at address 1.
\<close>

definition example_store :: "unit store" where
  "example_store = (\<lambda>a. \<lparr>forceGroup = int a\<rparr>)"

definition example_context :: "unit mm_context" where
  "example_context = \<lparr>getSystem = \<lparr>getForces = [0, 1, 2]\<rparr>, platformData = ()\<rparr>"

definition full_context :: "unit mm_context" where
  "full_context = \<lparr>getSystem = \<lparr>getForces = [0..<32]\<rparr>, platformData = ()\<rparr>"

definition example_engine :: "(unit, unit, int, int, int, int \<times> mm_unit) engine" where
  "example_engine =
     \<lparr>getState = (\<lambda>s c e gs. Inr (sum_list
          (map (\<lambda>a. if getForceGroup s a \<in> gs then 1 + int a else 0)
            (getForces (getSystem c))))),
      getPotentialEnergy = (\<lambda>s. s), value_in_unit_system_md = (\<lambda>q. q),
      times_unit = (\<lambda>x u. (x, u))\<rparr>"

definition example_cv :: collective_variable where
  "example_cv = \<lparr>this = 1, unit_attr = Some nanometers\<rparr>"

definition empty_centroid_store :: centroid_store where
  "empty_centroid_store = (\<lambda>a. CustomCentroidBondForce_init 0 [])"

text \<open>
  For the wrapper: an engine whose objects are their own XML text and which reads every
  text back as a \<^verbatim>\<open>CustomAngleForce\<close>, an interpreter that accepts every tuple of
  distinct base classes, and a state with one force (object 0 over the engine object 0)
  in which \<^verbatim>\<open>OpenMMForceWrapper\<close> derives from \<^verbatim>\<open>BaseCollectiveVariable\<close> alone.
\<close>

definition example_runtime :: "string runtime" where
  "example_runtime =
     \<lparr>xml_serialize = (\<lambda>n. Inr n),
      xml_deserialize = (\<lambda>t. Inr (''CustomAngleForce'', t)),
      bases_accepted = (\<lambda>B c new. True)\<rparr>"

definition example_state :: "(string, int) py_state" where
  "example_state =
     \<lparr>objects = (\<lambda>a. \<lparr>ob_class = ''CustomAngleForce'', ob_dict = [''this'' \<mapsto> Native a]\<rparr>),
      natives = (\<lambda>a. ''<Force type=CustomAngleForce energy=theta/>''),
      class_bases = (\<lambda>c. if c = ''OpenMMForceWrapper'' then [''BaseCollectiveVariable'']
         else if c = ''object'' then [] else if c = ''Force'' then [''object''] else [''Force'']),
      next_object = 1, next_native = 1\<rparr>"

section \<open>Properties of \<^verbatim>\<open>cvlib\<close>\<close>

subsection \<open>Choosing the temporary group\<close>

lemma py_next_Inr: "py_next xs = Inr x \<Longrightarrow> x \<in> set xs"
  by (auto simp: py_next_def split: list.splits)

lemma py_next_nonempty: "xs \<noteq> [] \<Longrightarrow> py_next xs = Inr (hd xs)"
  by (cases xs) (simp_all add: py_next_def)

lemma finite_free_groups: "finite (free_groups s forces)"
  by (simp add: free_groups_def)

lemma free_groups_range: "g \<in> free_groups s forces \<Longrightarrow> 0 \<le> g \<and> g \<le> 31"
  by (auto simp: free_groups_def)

lemma free_groups_unoccupied:
  assumes "g \<in> free_groups s forces" and "a \<in> set forces"
  shows "getForceGroup s a \<noteq> g"
proof
  assume "getForceGroup s a = g"
  with assms(2) have "g \<in> set (map (getForceGroup s) forces)" by auto
  with assms(1) show False by (simp add: free_groups_def)
qed

lemma new_group_free:
  assumes "set_iteration it" and "new_group it s context = Inr g"
  shows "g \<in> free_groups s (getForces (getSystem context))"
proof -
  let ?F = "free_groups s (getForces (getSystem context))"
  from assms(2) have "g \<in> set (it ?F)"
    unfolding new_group_def by (rule py_next_Inr)
  moreover from assms(1) have "set (it ?F) = ?F"
    by (simp add: set_iteration_def finite_free_groups)
  ultimately show ?thesis by simp
qed

lemma new_group_exists:
  assumes "set_iteration it" and "free_groups s (getForces (getSystem context)) \<noteq> {}"
  shows "\<exists>g. new_group it s context = Inr g"
proof -
  let ?F = "free_groups s (getForces (getSystem context))"
  from assms(1) have "set (it ?F) = ?F"
    by (simp add: set_iteration_def finite_free_groups)
  with assms(2) have "it ?F \<noteq> []" by auto
  then show ?thesis
    unfolding new_group_def by (auto dest: py_next_nonempty)
qed

lemma new_group_exhausted:
  assumes "set_iteration it" and "free_groups s (getForces (getSystem context)) = {}"
  shows "new_group it s context = Inl StopIteration"
proof -
  from assms(1) have "set (it {}) = {}"
    by (simp add: set_iteration_def)
  then show ?thesis
    using assms(2) by (simp add: new_group_def py_next_def)
qed

lemma setForceGroup_restore:
  "setForceGroup a (getForceGroup s a) (setForceGroup a g s) = s"
  by (simp add: setForceGroup_def getForceGroup_def fun_eq_iff)

lemma set_iteration_sorted: "set_iteration sorted_list_of_set"
  by (simp add: set_iteration_def)

lemma evaluateInContext_selected:
  assumes "new_group it s context = Inr g"
  shows "evaluateInContext eng it self context s =
     (case getState eng (setForceGroup (this self) g s) context True {g} of
        Inl e \<Rightarrow> (Inl e, setForceGroup (this self) g s)
      | Inr state \<Rightarrow>
          (Inr (times_unit eng (in_md_units eng (getPotentialEnergy eng state)) (getUnit self)), s))"
  using assms
  by (simp add: evaluateInContext_def Let_def setForceGroup_restore split: sum.splits)

lemma full_context_exhausted:
  "free_groups example_store (getForces (getSystem full_context)) = {}"
  by (simp add: free_groups_def example_store_def full_context_def getForceGroup_def)

subsection \<open>The unit accessors\<close>

text \<open>
  Claim C7. For every collective variable and every unit \<open>u\<close>, \<^verbatim>\<open>getUnit()\<close> after
  \<^verbatim>\<open>setUnit(u)\<close> returns \<open>u\<close>.
\<close>

theorem setUnit_getUnit: "getUnit (setUnit self u) = u"
  by (simp add: getUnit_def setUnit_def)

subsection \<open>Evaluation in a context\<close>

text \<open>
  Claim C6. Whenever \<^verbatim>\<open>evaluateInContext\<close> selects a temporary group, that is whenever
  \<^verbatim>\<open>next(iter(free_groups))\<close> returns a value \<open>g\<close>, the group lies between 0 and 31.
\<close>

theorem new_group_in_range:
  assumes "set_iteration it" and "new_group it s context = Inr g"
  shows "0 \<le> g \<and> g \<le> 31"
  using assms by (blast dest: new_group_free free_groups_range)

theorem new_group_in_range_witness:
  "new_group sorted_list_of_set example_store example_context = Inr 3
     \<and> (0::int) \<le> 3 \<and> (3::int) \<le> 31"
proof -
  have h: "new_group sorted_list_of_set example_store example_context = Inr 3"
    by code_simp
  from new_group_in_range [OF set_iteration_sorted h] h show ?thesis by simp
qed

text \<open>
  Claim C1. When the forces of the context's system leave a group in 0..31 unused, the call
  selects a group \<open>g\<close> of that range which no force of the system occupies, puts the
  variable's force into \<open>g\<close>, asks the engine for the state with the energy of the groups
  \<open>{g}\<close> alone, and its result is what the engine answers: the engine's exception if the
  query raises, and otherwise the potential energy of that state, converted to the MD unit
  system and multiplied by the variable's unit.
\<close>

theorem evaluateInContext_value:
  assumes "set_iteration it"
    and "free_groups s (getForces (getSystem context)) \<noteq> {}"
  shows "\<exists>g. new_group it s context = Inr g
     \<and> g \<in> set (map int [0..<32])
     \<and> g \<notin> set (map (getForceGroup s) (getForces (getSystem context)))
     \<and> getForceGroup (setForceGroup (this self) g s) (this self) = g
     \<and> fst (evaluateInContext eng it self context s) =
         (case getState eng (setForceGroup (this self) g s) context True {g} of
            Inl e \<Rightarrow> Inl e
          | Inr state \<Rightarrow>
              Inr (times_unit eng (in_md_units eng (getPotentialEnergy eng state)) (getUnit self)))"
proof -
  from assms obtain g where g: "new_group it s context = Inr g"
    by (blast dest: new_group_exists)
  with assms(1) have free: "g \<in> free_groups s (getForces (getSystem context))"
    by (rule new_group_free)
  then have "g \<in> set (map int [0..<32])"
    and "g \<notin> set (map (getForceGroup s) (getForces (getSystem context)))"
    by (simp_all add: free_groups_def)
  moreover have "getForceGroup (setForceGroup (this self) g s) (this self) = g"
    by (simp add: getForceGroup_def setForceGroup_def)
  moreover have "fst (evaluateInContext eng it self context s) =
         (case getState eng (setForceGroup (this self) g s) context True {g} of
            Inl e \<Rightarrow> Inl e
          | Inr state \<Rightarrow>
              Inr (times_unit eng (in_md_units eng (getPotentialEnergy eng state)) (getUnit self)))"
    by (simp add: evaluateInContext_selected [OF g] split: sum.splits)
  ultimately show ?thesis using g by blast
qed

theorem evaluateInContext_value_witness:
  "free_groups example_store (getForces (getSystem example_context)) \<noteq> {} \<and>
   fst (evaluateInContext example_engine sorted_list_of_set example_cv example_context
     example_store) = Inr (2, nanometers)"
proof -
  have h: "free_groups example_store (getForces (getSystem example_context)) \<noteq> {}"
    by code_simp
  from evaluateInContext_value [OF set_iteration_sorted h,
      where eng = example_engine and self = example_cv]
  obtain g where g: "new_group sorted_list_of_set example_store example_context = Inr g"
    and v: "fst (evaluateInContext example_engine sorted_list_of_set example_cv
         example_context example_store) =
       (case getState example_engine (setForceGroup (this example_cv) g example_store)
          example_context True {g} of
          Inl e \<Rightarrow> Inl e
        | Inr state \<Rightarrow>
            Inr (times_unit example_engine
              (in_md_units example_engine (getPotentialEnergy example_engine state))
              (getUnit example_cv)))"
    by blast
  have "new_group sorted_list_of_set example_store example_context = Inr 3"
    by code_simp
  with g have "g = 3" by simp
  moreover have
    "(case getState example_engine (setForceGroup (this example_cv) 3 example_store)
          example_context True {3} of
          Inl e \<Rightarrow> Inl e
        | Inr state \<Rightarrow>
            Inr (times_unit example_engine
              (in_md_units example_engine (getPotentialEnergy example_engine state))
              (getUnit example_cv))) = Inr (2, nanometers)"
    by code_simp
  ultimately show ?thesis using h v by simp
qed

text \<open>
  Claim C2. A call of \<^verbatim>\<open>evaluateInContext\<close> that returns a value leaves the store of
  engine objects as it found it: the variable's force is back in the group it had, and no
  other force has changed. (The Python object of the variable is only read.)
\<close>

theorem evaluateInContext_restores:
  assumes "fst (evaluateInContext eng it self context s) = Inr v"
  shows "snd (evaluateInContext eng it self context s) = s"
  using assms
  by (auto simp: evaluateInContext_def Let_def setForceGroup_restore split: sum.splits)

theorem evaluateInContext_restores_witness:
  "fst (evaluateInContext example_engine sorted_list_of_set example_cv example_context
     example_store) = Inr (2, nanometers) \<and>
   snd (evaluateInContext example_engine sorted_list_of_set example_cv example_context
     example_store) = example_store"
proof -
  have h: "fst (evaluateInContext example_engine sorted_list_of_set example_cv
      example_context example_store) = Inr (2, nanometers)"
    by code_simp
  from evaluateInContext_restores [OF h] h show ?thesis by simp
qed

text \<open>
  When the engine's query raises, the call ends there: the exception is passed on and the
  variable's force stays in the temporary group.
\<close>

lemma evaluateInContext_engine_raises:
  assumes "new_group it s context = Inr g"
    and "getState eng (setForceGroup (this self) g s) context True {g} = Inl e"
  shows "evaluateInContext eng it self context s = (Inl e, setForceGroup (this self) g s)"
  using assms by (simp add: evaluateInContext_selected)

text \<open>
  Claim C5, as the code has it. When the forces of the system occupy all of the groups
  0..31, the call ends with \<^verbatim>\<open>StopIteration\<close>, which \<^verbatim>\<open>next\<close> raises on the empty set
  of free groups in the method's own body: no group has been changed and the engine has not
  been asked for anything.
\<close>

theorem evaluateInContext_exhausted:
  assumes "set_iteration it"
    and "free_groups s (getForces (getSystem context)) = {}"
  shows "evaluateInContext eng it self context s = (Inl StopIteration, s)"
  using new_group_exhausted [OF assms]
  by (simp add: evaluateInContext_def)

theorem evaluateInContext_exhausted_witness:
  "evaluateInContext example_engine sorted_list_of_set example_cv full_context example_store
     = (Inl StopIteration, example_store)"
  by (rule evaluateInContext_exhausted [OF set_iteration_sorted full_context_exhausted])

text \<open>
  Claim C5, as the specification states it, fails: on a system of thirty-two forces in
  the groups 0 to 31 the exception of the call is not one of the engine's.
\<close>

theorem exhaustion_not_raised_by_engine:
  "free_groups example_store (getForces (getSystem full_context)) = {}
   \<and> fst (evaluateInContext example_engine sorted_list_of_set example_cv full_context
       example_store) = Inl StopIteration
   \<and> \<not> raised_by_engine (fst (evaluateInContext example_engine sorted_list_of_set example_cv
       full_context example_store))"
proof -
  have "fst (evaluateInContext example_engine sorted_list_of_set example_cv full_context
      example_store) = Inl StopIteration"
    by code_simp
  then show ?thesis using full_context_exhausted by simp
qed

subsection \<open>The radius of gyration\<close>

lemma py_str_2: "py_str 2 = ''2''"
  by (simp add: py_str_def digit_def)

lemma py_range_int: "py_range (int n) = map int [0..<n]"
  by (simp add: py_range_def)

lemma py_range_Suc: "py_range (int n + 1) = map int [0..<n + 1]"
proof -
  have "nat (int n + 1) = n + 1" by simp
  then show ?thesis unfolding py_range_def by (simp only:)
qed

lemma addGroup_loop:
  "fold (\<lambda>atom. addGroup a [atom] [1]) atoms s a =
     (s a)\<lparr>groups := groups (s a) @ map (\<lambda>atom. ([atom], [1])) atoms\<rparr>"
  by (induction atoms arbitrary: s) (simp_all add: addGroup_def)

lemma RadiusOfGyration_init_force:
  "snd (RadiusOfGyration_init atoms a s) a =
     \<lparr>forceGroup = 0, numGroupsPerBond = int (length atoms) + 1,
      energyFunction = render (radius_of_gyration_expression (length atoms)),
      groups = map (\<lambda>atom. ([atom], [1])) atoms @ [(atoms, replicate (length atoms) 1)],
      bonds = [(map int [0..<length atoms + 1], [])],
      usesPeriodicBoundaryConditions = False\<rparr>"
  by (simp add: RadiusOfGyration_init_def Let_def addGroup_loop addGroup_def addBond_def
      setUsesPeriodicBoundaryConditions_def CustomCentroidBondForce_init_def
      radius_of_gyration_expression_def py_str_2 py_range_int py_range_Suc comp_def
      del: upt_Suc)

text \<open>
  Claim C9. For a non-empty list of \<open>n\<close> atoms the constructor leaves a force with
  \<open>n + 1\<close> groups, one per atom with weight 1 in the order of the list and then one of
  all the atoms with weights 1, with \<open>n + 1\<close> groups per bond and the single bond over the
  groups \<open>0, ..., n\<close> without parameters, whose energy expression is the text of
  \<open>sqrt((distance(g1, g(n+1))^2 + ... + distance(gn, g(n+1))^2)/n)\<close>, which does not use
  periodic boundary conditions, and whose unit is the nanometer.
\<close>

theorem RadiusOfGyration_init_builds:
  assumes "atoms \<noteq> []"
  shows "length (groups (snd (RadiusOfGyration_init atoms a s) a)) = length atoms + 1
    \<and> groups (snd (RadiusOfGyration_init atoms a s) a) =
        map (\<lambda>atom. ([atom], [1])) atoms @ [(atoms, replicate (length atoms) 1)]
    \<and> numGroupsPerBond (snd (RadiusOfGyration_init atoms a s) a) = int (length atoms) + 1
    \<and> bonds (snd (RadiusOfGyration_init atoms a s) a) = [(map int [0..<length atoms + 1], [])]
    \<and> energyFunction (snd (RadiusOfGyration_init atoms a s) a) =
        render (radius_of_gyration_expression (length atoms))
    \<and> usesPeriodicBoundaryConditions (snd (RadiusOfGyration_init atoms a s) a) = False
    \<and> this (fst (RadiusOfGyration_init atoms a s)) = a
    \<and> getUnit (fst (RadiusOfGyration_init atoms a s)) = nanometers"
proof -
  have "getUnit (fst (RadiusOfGyration_init atoms a s)) = nanometers"
    and "this (fst (RadiusOfGyration_init atoms a s)) = a"
    by (simp_all add: RadiusOfGyration_init_def Let_def getUnit_def setUnit_def)
  then show ?thesis
    by (simp add: RadiusOfGyration_init_force)
qed

theorem RadiusOfGyration_init_builds_witness:
  "[4, 7] \<noteq> ([] :: int list)
   \<and> groups (snd (RadiusOfGyration_init [4, 7] 5 empty_centroid_store) 5) =
       [([4], [1]), ([7], [1]), ([4, 7], [1, 1])]
   \<and> bonds (snd (RadiusOfGyration_init [4, 7] 5 empty_centroid_store) 5) = [([0, 1, 2], [])]
   \<and> energyFunction (snd (RadiusOfGyration_init [4, 7] 5 empty_centroid_store) 5) =
       ''sqrt((distance(g1, g3)^2+distance(g2, g3)^2)/2)''
   \<and> getUnit (fst (RadiusOfGyration_init [4, 7] 5 empty_centroid_store)) = nanometers"
proof -
  have h: "[4, 7] \<noteq> ([] :: int list)" by simp
  have r: "render (radius_of_gyration_expression (length [4, 7 :: int])) =
      ''sqrt((distance(g1, g3)^2+distance(g2, g3)^2)/2)''"
    by code_simp
  from RadiusOfGyration_init_builds [OF h, of 5 empty_centroid_store] r
  show ?thesis by (simp add: upt_rec)
qed

section \<open>Properties of \<^verbatim>\<open>cvpack.OpenMMForceWrapper\<close>\<close>

subsection \<open>What each step changes\<close>

lemma dict_update_simps [simp]:
  "objects (dict_update self d st) =
     (objects st)(self := (objects st self)\<lparr>ob_dict := ob_dict (objects st self) ++ d\<rparr>)"
  "natives (dict_update self d st) = natives st"
  "class_bases (dict_update self d st) = class_bases st"
  "next_object (dict_update self d st) = next_object st"
  "next_native (dict_update self d st) = next_native st"
  by (simp_all add: dict_update_def)

lemma registerCV_simps [simp]:
  "objects (registerCV self cv_unit args st) =
     (objects st)(self := (objects st self)
        \<lparr>ob_dict := (ob_dict (objects st self))(''_unit'' \<mapsto> UnitV cv_unit, ''_args'' \<mapsto> TupleV args)\<rparr>)"
  "natives (registerCV self cv_unit args st) = natives st"
  "class_bases (registerCV self cv_unit args st) = class_bases st"
  "next_object (registerCV self cv_unit args st) = next_object st"
  "next_native (registerCV self cv_unit args st) = next_native st"
  by (simp_all add: registerCV_def setattr_def)

lemma registerPeriod_simps [simp]:
  "objects (registerPeriod self period st) =
     (objects st)(self := (objects st self)
        \<lparr>ob_dict := (ob_dict (objects st self))(''_period'' \<mapsto> ScalarV period)\<rparr>)"
  "natives (registerPeriod self period st) = natives st"
  "class_bases (registerPeriod self period st) = class_bases st"
  "next_object (registerPeriod self period st) = next_object st"
  "next_native (registerPeriod self period st) = next_native st"
  by (simp_all add: registerPeriod_def setattr_def)

lemma set_bases_Inr:
  "set_bases rt c new st = Inr st' \<Longrightarrow> st' = st\<lparr>class_bases := (class_bases st)(c := new)\<rparr>"
  by (simp add: set_bases_def split: if_splits)

lemma set_bases_duplicate: "\<not> distinct new \<Longrightarrow> set_bases rt c new st = Inl TypeError"
  by (simp add: set_bases_def)

lemma deserialize_Inr:
  assumes "XmlSerializer_deserialize rt text st = Inr (force_copy, st1)"
  shows "\<exists>c n. xml_deserialize rt text = Inr (c, n)
     \<and> force_copy = \<lparr>ob_class = c, ob_dict = [''this'' \<mapsto> Native (next_native st)]\<rparr>
     \<and> st1 = st\<lparr>natives := (natives st)(next_native st := n),
                next_native := Suc (next_native st)\<rparr>"
  using assms by (auto simp: XmlSerializer_deserialize_def split: sum.splits)

lemma new_object_simps [simp]:
  "objects (new_object cls st) =
     (objects st)(next_object st := \<lparr>ob_class = cls, ob_dict = Map.empty\<rparr>)"
  "natives (new_object cls st) = natives st"
  "class_bases (new_object cls st) = class_bases st"
  "next_object (new_object cls st) = Suc (next_object st)"
  "next_native (new_object cls st) = next_native st"
  by (simp_all add: new_object_def)


subsection \<open>A construction that succeeds\<close>

lemma init_success:
  assumes "OpenMMForceWrapper_init rt self openmmForce u p st = (None, st')"
  shows "\<exists>text c n. xml_text rt st openmmForce = Inr text \<and> xml_deserialize rt text = Inr (c, n)
     \<and> st' = built self text c n u p st"
proof -
  from assms obtain xml where t: "xml_text rt st openmmForce = Inr xml"
    by (auto simp: OpenMMForceWrapper_init_def xml_text_def split: sum.splits)
  with assms obtain force_copy st1 where d: "XmlSerializer_deserialize rt xml st = Inr (force_copy, st1)"
    by (auto simp: OpenMMForceWrapper_init_def xml_text_def Let_def split: sum.splits)
  from deserialize_Inr [OF d] obtain c n where c: "xml_deserialize rt xml = Inr (c, n)"
    and fc: "force_copy = \<lparr>ob_class = c, ob_dict = [''this'' \<mapsto> Native (next_native st)]\<rparr>"
    and st1: "st1 = st\<lparr>natives := (natives st)(next_native st := n),
                next_native := Suc (next_native st)\<rparr>"
    by blast
  let ?st2 = "dict_update self (ob_dict force_copy) st1"
  let ?cls = "ob_class (objects ?st2 self)"
  from assms t d obtain st3 where
    b: "set_bases rt ?cls (class_bases ?st2 ?cls @ [ob_class force_copy]) ?st2 = Inr st3"
    by (auto simp: OpenMMForceWrapper_init_def xml_text_def Let_def split: sum.splits)
  note st3 = set_bases_Inr [OF b]
  from assms t d b have "st' = (case p of
       None \<Rightarrow> registerCV self (SerializableUnit u) [StrV xml, UnitV (SerializableUnit u), optional p] st3
     | Some q \<Rightarrow> registerPeriod self q
         (registerCV self (SerializableUnit u) [StrV xml, UnitV (SerializableUnit u), optional p] st3))"
    by (auto simp: OpenMMForceWrapper_init_def xml_text_def Let_def split: sum.splits option.splits)
  then have "st' = built self xml c n u p st"
    unfolding st3 fc st1 built_def SerializableUnit_def
    by (cases p) (simp_all add: Let_def fun_eq_iff map_add_def)
  with t c show ?thesis by blast
qed

lemma new_success:
  assumes "OpenMMForceWrapper_new rt openmmForce u p st = (Inr w, st')"
  shows "w = next_object st \<and> (\<exists>xml c n.
       xml_text rt (new_object ''OpenMMForceWrapper'' st) openmmForce = Inr xml
     \<and> xml_deserialize rt xml = Inr (c, n)
     \<and> st' = built w xml c n u p (new_object ''OpenMMForceWrapper'' st))"
proof -
  from assms have w: "w = next_object st"
    and i: "OpenMMForceWrapper_init rt (next_object st) openmmForce u p
              (new_object ''OpenMMForceWrapper'' st) = (None, st')"
    by (auto simp: OpenMMForceWrapper_new_def Let_def split: prod.splits option.splits)
  from init_success [OF i] w show ?thesis by blast
qed

lemma built_new_simps:
  "class_bases (built (next_object st) xml c n u p (new_object cls st)) =
     (class_bases st)(cls := class_bases st cls @ [c])"
  "ob_class (objects (built (next_object st) xml c n u p (new_object cls st)) (next_object st)) = cls"
  "a \<noteq> next_object st \<Longrightarrow>
     objects (built (next_object st) xml c n u p (new_object cls st)) a = objects st a"
  "natives (built (next_object st) xml c n u p (new_object cls st)) =
     (natives st)(next_native st := n)"
  "next_object (built (next_object st) xml c n u p (new_object cls st)) = Suc (next_object st)"
  "ob_dict (objects (built (next_object st) xml c n u p (new_object cls st)) (next_object st)) ''this''
     = Some (Native (next_native st))"
  "ob_dict (objects (built (next_object st) xml c n u p (new_object cls st)) (next_object st)) ''_period''
     = map_option ScalarV p"
  by (simp_all add: built_def Let_def split: option.splits)

lemma isinstance_base:
  "c \<in> set (class_bases st (ob_class (objects st a))) \<Longrightarrow> isinstance st a c"
  unfolding isinstance_def by (blast intro: subclass_of.intros)

subsection \<open>A construction leaves the objects it finds alone\<close>

lemma init_frame:
  "a \<noteq> self \<Longrightarrow> objects (snd (OpenMMForceWrapper_init rt self openmmForce u p st)) a = objects st a"
  "n \<noteq> next_native st \<Longrightarrow>
     natives (snd (OpenMMForceWrapper_init rt self openmmForce u p st)) n = natives st n"
  by (auto simp: OpenMMForceWrapper_init_def Let_def
      split: sum.splits prod.splits option.splits dest!: deserialize_Inr set_bases_Inr)

lemma new_frame:
  "a < next_object st \<Longrightarrow> objects (snd (OpenMMForceWrapper_new rt openmmForce u p st)) a = objects st a"
  "n < next_native st \<Longrightarrow> natives (snd (OpenMMForceWrapper_new rt openmmForce u p st)) n = natives st n"
proof -
  let ?i = "OpenMMForceWrapper_init rt (next_object st) openmmForce u p
      (new_object ''OpenMMForceWrapper'' st)"
  have s: "snd (OpenMMForceWrapper_new rt openmmForce u p st) = snd ?i"
    by (simp add: OpenMMForceWrapper_new_def Let_def split: prod.splits option.splits)
  show "objects (snd (OpenMMForceWrapper_new rt openmmForce u p st)) a = objects st a"
    if "a < next_object st"
    using that by (simp add: s init_frame(1))
  show "natives (snd (OpenMMForceWrapper_new rt openmmForce u p st)) n = natives st n"
    if "n < next_native st"
    using that by (simp add: s init_frame(2))
qed

subsection \<open>The examples, evaluated\<close>

lemma example_new:
  "fst (OpenMMForceWrapper_new example_runtime (ForceObject 0) radians (Some 6) example_state) = Inr 1"
  by code_simp

lemma example_bases:
  "class_bases (snd (OpenMMForceWrapper_new example_runtime (ForceObject 0) radians (Some 6) example_state))
     ''OpenMMForceWrapper'' = [''BaseCollectiveVariable'', ''CustomAngleForce'']"
  by code_simp

lemma example_second:
  "fst (OpenMMForceWrapper_new example_runtime (ForceObject 0) radians (Some 6)
     (snd (OpenMMForceWrapper_new example_runtime (ForceObject 0) radians (Some 6) example_state))) = Inl TypeError"
  by code_simp


lemma example_live: "0 < next_object example_state" "0 < next_native example_state"
  "ob_dict (objects example_state 0) ''this'' = Some (Native 0)"
  "ob_class (objects example_state 0) = ''CustomAngleForce''"
  "class_bases example_state ''OpenMMForceWrapper'' = [''BaseCollectiveVariable'']"
  by (simp_all add: example_state_def)

lemma example_result:
  "OpenMMForceWrapper_new example_runtime (ForceObject 0) radians (Some 6) example_state =
     (Inr 1, snd (OpenMMForceWrapper_new example_runtime (ForceObject 0) radians (Some 6)
        example_state))"
  using example_new by (simp add: prod_eq_iff)

subsection \<open>The claims\<close>



text \<open>
  Claim C4. Whatever the outcome of \<^verbatim>\<open>OpenMMForceWrapper(force, unit, period)\<close>, the
  Python object of the force (its class and its dictionary) and the engine object behind it
  are after the call what they were before it. When the call returns a wrapper, the wrapper
  is another object than the force, and its \<^verbatim>\<open>this\<close> refers to another engine object,
  the one that was deserialized.
\<close>

theorem wrapped_force_unchanged:
  assumes "f < next_object st"
    and "ob_dict (objects st f) ''this'' = Some (Native n)"
    and "n < next_native st"
  shows "objects (snd (OpenMMForceWrapper_new rt (ForceObject f) u p st)) f = objects st f
     \<and> natives (snd (OpenMMForceWrapper_new rt (ForceObject f) u p st)) n = natives st n
     \<and> (\<forall>w. fst (OpenMMForceWrapper_new rt (ForceObject f) u p st) = Inr w \<longrightarrow>
          w \<noteq> f \<and> next_native st \<noteq> n \<and>
          ob_dict (objects (snd (OpenMMForceWrapper_new rt (ForceObject f) u p st)) w) ''this'' =
            Some (Native (next_native st)))"
proof -
  let ?r = "OpenMMForceWrapper_new rt (ForceObject f) u p st"
  have "w \<noteq> f \<and> next_native st \<noteq> n \<and>
      ob_dict (objects (snd ?r) w) ''this'' = Some (Native (next_native st))"
    if "fst ?r = Inr w" for w
  proof -
    from that have "?r = (Inr w, snd ?r)" by (simp add: prod_eq_iff)
    from new_success [OF this] obtain xml c k where w: "w = next_object st"
      and st': "snd ?r = built w xml c k u p (new_object ''OpenMMForceWrapper'' st)"
      by blast
    have "ob_dict (objects (snd ?r) w) ''this'' = Some (Native (next_native st))"
      unfolding st' w by (simp add: built_new_simps)
    with assms w show ?thesis by simp
  qed
  with assms show ?thesis by (simp add: new_frame)
qed

theorem wrapped_force_unchanged_witness:
  "0 < next_object example_state
   \<and> ob_dict (objects example_state 0) ''this'' = Some (Native 0)
   \<and> 0 < next_native example_state
   \<and> objects (snd (OpenMMForceWrapper_new example_runtime (ForceObject 0) radians (Some 6)
        example_state)) 0 = objects example_state 0
   \<and> natives (snd (OpenMMForceWrapper_new example_runtime (ForceObject 0) radians (Some 6)
        example_state)) 0 = natives example_state 0"
  using wrapped_force_unchanged [OF example_live(1) example_live(3) example_live(2),
      where rt = example_runtime and u = radians and p = "Some 6"]
    example_live(1-3)
  by simp

text \<open>
  Claim C8. After \<^verbatim>\<open>OpenMMForceWrapper(force, unit, period)\<close> has returned a wrapper, a
  period is registered on it exactly when the argument \<^verbatim>\<open>period\<close> is not \<^verbatim>\<open>None\<close>, and
  it is then the argument.
\<close>

theorem period_registered_iff_given:
  assumes "OpenMMForceWrapper_new rt openmmForce u p st = (Inr w, st')"
  shows "registered_period st' w = p"
proof -
  from new_success [OF assms] obtain xml c n where w: "w = next_object st"
    and st': "st' = built w xml c n u p (new_object ''OpenMMForceWrapper'' st)"
    by blast
  show ?thesis unfolding st' w registered_period_def
    by (cases p) (simp_all add: built_new_simps)
qed

theorem period_registered_iff_given_witness:
  "fst (OpenMMForceWrapper_new example_runtime (ForceObject 0) radians (Some 6)
        example_state) = Inr 1
   \<and> registered_period (snd (OpenMMForceWrapper_new example_runtime (ForceObject 0) radians
        (Some 6) example_state)) 1 = Some 6"
  using period_registered_iff_given [OF example_result] example_new by simp

text \<open>
  Claim C10. A call \<^verbatim>\<open>OpenMMForceWrapper(...)\<close> that returns a wrapper has appended the
  class of the deserialized copy to the base classes of the class
  \<^verbatim>\<open>OpenMMForceWrapper\<close> itself. The new wrapper is an instance of that class, and so is
  every object of class \<^verbatim>\<open>OpenMMForceWrapper\<close> that existed before the call, and so is
  the wrapper that any later call returns.
\<close>

theorem construction_extends_class_bases:
  assumes "OpenMMForceWrapper_new rt openmmForce u p st = (Inr w, st')"
  shows "\<exists>c. class_bases st' ''OpenMMForceWrapper'' = class_bases st ''OpenMMForceWrapper'' @ [c]
     \<and> (\<exists>xml n. xml_text rt (new_object ''OpenMMForceWrapper'' st) openmmForce = Inr xml
          \<and> xml_deserialize rt xml = Inr (c, n))
     \<and> isinstance st' w c
     \<and> (\<forall>a. a < next_object st \<and> ob_class (objects st a) = ''OpenMMForceWrapper''
          \<longrightarrow> isinstance st' a c)
     \<and> (\<forall>arg2 u2 p2 w2 st2. OpenMMForceWrapper_new rt arg2 u2 p2 st' = (Inr w2, st2)
          \<longrightarrow> isinstance st2 w2 c \<and> isinstance st2 w c)"
proof -
  let ?W = "''OpenMMForceWrapper''"
  from new_success [OF assms] obtain xml c n where w: "w = next_object st"
    and x: "xml_text rt (new_object ?W st) openmmForce = Inr xml"
    and d: "xml_deserialize rt xml = Inr (c, n)"
    and st': "st' = built w xml c n u p (new_object ?W st)"
    by blast
  have b: "class_bases st' ?W = class_bases st ?W @ [c]"
    and cw: "ob_class (objects st' w) = ?W"
    and nx: "next_object st' = Suc w"
    unfolding st' w by (simp_all add: built_new_simps)
  have old: "objects st' a = objects st a" if "a < next_object st" for a
    using that unfolding st' w by (simp add: built_new_simps)
  have "isinstance st' w c"
    by (rule isinstance_base) (simp add: cw b)
  moreover have "isinstance st' a c"
    if "a < next_object st \<and> ob_class (objects st a) = ?W" for a
    by (rule isinstance_base) (use that in \<open>simp add: old b\<close>)
  moreover have "isinstance st2 w2 c \<and> isinstance st2 w c"
    if n2: "OpenMMForceWrapper_new rt arg2 u2 p2 st' = (Inr w2, st2)"
    for arg2 u2 p2 w2 and st2 :: "('a, 'b) py_state"
  proof -
    from new_success [OF n2] obtain xml2 c2 k2 where w2: "w2 = next_object st'"
      and st2: "st2 = built w2 xml2 c2 k2 u2 p2 (new_object ?W st')"
      by blast
    have b2: "class_bases st2 ?W = class_bases st' ?W @ [c2]"
      and cw2: "ob_class (objects st2 w2) = ?W"
      unfolding st2 w2 by (simp_all add: built_new_simps)
    from nx have "w \<noteq> next_object st'" by simp
    then have "objects st2 w = objects st' w"
      unfolding st2 w2 by (simp add: built_new_simps)
    with cw have cw': "ob_class (objects st2 w) = ?W" by simp
    have "isinstance st2 w2 c"
      by (rule isinstance_base) (simp add: cw2 b2 b)
    moreover have "isinstance st2 w c"
      by (rule isinstance_base) (simp add: cw' b2 b)
    ultimately show ?thesis ..
  qed
  ultimately show ?thesis using b x d by blast
qed

theorem construction_extends_class_bases_witness:
  "fst (OpenMMForceWrapper_new example_runtime (ForceObject 0) radians (Some 6)
        example_state) = Inr 1
   \<and> class_bases (snd (OpenMMForceWrapper_new example_runtime (ForceObject 0) radians
        (Some 6) example_state)) ''OpenMMForceWrapper'' =
       class_bases example_state ''OpenMMForceWrapper'' @ [''CustomAngleForce'']
   \<and> isinstance (snd (OpenMMForceWrapper_new example_runtime (ForceObject 0) radians
        (Some 6) example_state)) 1 ''CustomAngleForce''"
proof -
  let ?st' = "snd (OpenMMForceWrapper_new example_runtime (ForceObject 0) radians (Some 6)
      example_state)"
  from construction_extends_class_bases [OF example_result]
  obtain c where b: "class_bases ?st' ''OpenMMForceWrapper'' =
      class_bases example_state ''OpenMMForceWrapper'' @ [c]"
    and i: "isinstance ?st' 1 c"
    by blast
  from b have "c = ''CustomAngleForce''"
    by (simp add: example_bases example_live(5))
  with b i example_new show ?thesis by simp
qed

text \<open>
  The other side of the shared base classes: once the class of the copy is among the base
  classes of \<^verbatim>\<open>OpenMMForceWrapper\<close>, a further construction over a force of that class
  raises \<^verbatim>\<open>TypeError\<close>.
\<close>

lemma new_duplicate_base:
  assumes "xml_text rt (new_object ''OpenMMForceWrapper'' st) openmmForce = Inr xml"
    and "xml_deserialize rt xml = Inr (c, n)"
    and "c \<in> set (class_bases st ''OpenMMForceWrapper'')"
  shows "fst (OpenMMForceWrapper_new rt openmmForce u p st) = Inl TypeError"
  using assms
  by (simp add: OpenMMForceWrapper_new_def OpenMMForceWrapper_init_def Let_def
      XmlSerializer_deserialize_def set_bases_def)

end
